theory Spec2Isabelle
  imports Main
begin

section \<open>Python values, exceptions and the object store\<close>

text \<open>
  The module \<^verbatim>\<open>effect/testing.py\<close> drives the callback chain of an \<^verbatim>\<open>Effect\<close> object by
  hand. Its functions read attributes of objects, call user functions and build new
  \<^verbatim>\<open>Effect\<close> objects, so the embedding has
  \<^item> a store of \<^verbatim>\<open>Effect\<close> objects, addressed by position; an object is never removed,
    and building an object appends it to the store;
  \<^item> values that are \<^verbatim>\<open>None\<close>, an integer, the triple \<^verbatim>\<open>sys.exc_info()\<close> yields, or a
    reference to an object of the store;
  \<^item> callables as names (\<open>Fn n\<close>, and the two closures \<open>SUCC\<close> and \<open>ERR\<close> of
    \<^verbatim>\<open>sync_perform\<close>) whose behaviour an environment \<open>call\<close> gives: applied to an argument
    in a store, a callable returns a value or raises, and may have built new objects.
    A callable does not change an object that exists already.
  The traceback of a captured exception is not modelled: \<open>VExcInfo e\<close> stands for the
  triple \<^verbatim>\<open>(type(e), e, traceback)\<close>.
\<close>

type_synonym addr = nat

record pyexc =
  exc_type :: string
  exc_message :: string

datatype pyval = VNone | VInt int | VExcInfo pyexc | VRef addr

text \<open>An intent is an object of some class with attributes, looked up by name.\<close>

record intent =
  intent_class :: string
  intent_attrs :: "(string \<times> pyval) list"

datatype pyclass = EffectClass | EffectSubclass string

datatype callable = Fn nat | SUCC | ERR

type_synonym callback_pair = "callable option \<times> callable option"

record effect =
  cls :: pyclass
  intent :: intent
  callbacks :: "callback_pair list"

type_synonym store = "effect list"

type_synonym env = "callable \<Rightarrow> pyval \<Rightarrow> store \<Rightarrow> (pyexc + pyval) \<times> effect list"

text \<open>\<^verbatim>\<open>StubIntent.__init__\<close>: the only attribute is \<^verbatim>\<open>result\<close>.\<close>

definition StubIntent :: "pyval \<Rightarrow> intent" where
  "StubIntent res = \<lparr>intent_class = ''StubIntent'', intent_attrs = [(''result'', res)]\<rparr>"

text \<open>Attribute access \<^verbatim>\<open>obj.name\<close> on an intent; a missing attribute raises.\<close>

definition getattr :: "intent \<Rightarrow> string \<Rightarrow> pyexc + pyval" where
  "getattr obj name =
     (case map_of (intent_attrs obj) name of
        None \<Rightarrow> Inl \<lparr>exc_type = ''AttributeError'',
                    exc_message = [CHR 0x27] @ intent_class obj @ [CHR 0x27]
                      @ '' object has no attribute '' @ [CHR 0x27] @ name @ [CHR 0x27]\<rparr>
      | Some v \<Rightarrow> Inr v)"

text \<open>The object a value refers to, when it refers to one.\<close>

definition effect_of :: "store \<Rightarrow> pyval \<Rightarrow> effect option" where
  "effect_of h v = (case v of VRef a \<Rightarrow> (if a < length h then Some (h ! a) else None) | _ \<Rightarrow> None)"

text \<open>The test \<^verbatim>\<open>type(result) is Effect\<close>: the class of the object is \<^verbatim>\<open>Effect\<close> itself.\<close>

definition type_is_Effect :: "store \<Rightarrow> pyval \<Rightarrow> bool" where
  "type_is_Effect h v = (case effect_of h v of Some obj \<Rightarrow> cls obj = EffectClass | None \<Rightarrow> False)"

text \<open>
  Modelled from the spec: \<^verbatim>\<open>Effect.with_callbacks\<close> belongs to the \<^verbatim>\<open>Effect\<close> class,
  which is outside \<^verbatim>\<open>testing.py\<close>. It constructs a value from an intent and an ordered
  continuation sequence: a new object of class \<^verbatim>\<open>Effect\<close>.
\<close>

definition with_callbacks :: "intent \<Rightarrow> callback_pair list \<Rightarrow> store \<Rightarrow> addr \<times> store" where
  "with_callbacks i cbs h = (length h, h @ [\<lparr>cls = EffectClass, intent = i, callbacks = cbs\<rparr>])"

text \<open>
  Modelled from the spec: \<^verbatim>\<open>Effect.on\<close> belongs to the \<^verbatim>\<open>Effect\<close> class as well. It
  attaches a terminal success/error pair to a value, returning a new value.
\<close>

definition on :: "addr \<Rightarrow> callable option \<Rightarrow> callable option \<Rightarrow> store \<Rightarrow> addr \<times> store" where
  "on effect success error h =
     (length h, h @ [(h ! effect)\<lparr>callbacks := callbacks (h ! effect) @ [(success, error)]\<rparr>])"

text \<open>
  \<^verbatim>\<open>six.reraise(*result)\<close> never returns. On the triple of a captured exception it
  raises that exception; a value that is no such triple cannot be unpacked into the
  arguments of the call, which raises \<^verbatim>\<open>TypeError\<close> (its message is not modelled).
\<close>

fun reraise :: "pyval \<Rightarrow> pyexc" where
  "reraise (VExcInfo e) = e"
| "reraise v = \<lparr>exc_type = ''TypeError'', exc_message = []\<rparr>"

section \<open>\<^verbatim>\<open>resolve_effect\<close>\<close>

text \<open>The variables of the loop, and the store.\<close>

record loop_state =
  result :: pyval
  is_error :: bool
  store :: store

datatype step = Continue loop_state | Return pyval store

text \<open>
  One iteration of the \<^verbatim>\<open>for\<close> loop, at index \<open>i\<close> with the pair
  \<^verbatim>\<open>(callback, errback)\<close>: either the loop goes on with new variables, or the function
  returns the \<^verbatim>\<open>Effect\<close> it builds.
\<close>

definition loop_body :: "env \<Rightarrow> addr \<Rightarrow> nat \<Rightarrow> callback_pair \<Rightarrow> loop_state \<Rightarrow> step" where
  "loop_body call effect i pair s =
     (case pair of (callback, errback) \<Rightarrow>
        (case (if is_error s then errback else callback) of
           None \<Rightarrow> Continue s
         | Some cb \<Rightarrow>
             (case call cb (result s) (store s) of (r, new) \<Rightarrow>
                (let h = store s @ new;
                     s' = (case r of
                             Inr v \<Rightarrow> \<lparr>result = v, is_error = False, store = h\<rparr>
                           | Inl e \<Rightarrow> \<lparr>result = VExcInfo e, is_error = True, store = h\<rparr>)
                 in if type_is_Effect h (result s')
                    then (let res = the (effect_of h (result s'))
                          in case with_callbacks (intent res)
                                    (callbacks res @ drop (i + 1) (callbacks (h ! effect))) h of
                               (a, h') \<Rightarrow> Return (VRef a) h')
                    else Continue s'))))"

text \<open>After the loop: \<^verbatim>\<open>if is_error: six.reraise(*result)\<close>, then \<^verbatim>\<open>return result\<close>.\<close>

definition finish :: "loop_state \<Rightarrow> (pyexc + pyval) \<times> store" where
  "finish s = (if is_error s then (Inl (reraise (result s)), store s)
               else (Inr (result s), store s))"

fun resolve_loop :: "env \<Rightarrow> addr \<Rightarrow> nat \<Rightarrow> callback_pair list \<Rightarrow> loop_state
    \<Rightarrow> (pyexc + pyval) \<times> store" where
  "resolve_loop call effect i [] s = finish s"
| "resolve_loop call effect i (pair # rest) s =
     (case loop_body call effect i pair s of
        Return v h \<Rightarrow> (Inr v, h)
      | Continue s' \<Rightarrow> resolve_loop call effect (Suc i) rest s')"

text \<open>
  \<^verbatim>\<open>enumerate(effect.callbacks)\<close> reads the callback list once, when the loop starts,
  and counts from 0.
\<close>

definition resolve_effect :: "env \<Rightarrow> addr \<Rightarrow> pyval \<Rightarrow> bool \<Rightarrow> store \<Rightarrow> (pyexc + pyval) \<times> store" where
  "resolve_effect call effect res is_err h =
     resolve_loop call effect 0 (callbacks (h ! effect)) \<lparr>result = res, is_error = is_err, store = h\<rparr>"

text \<open>
  The variables of the loop when it arrives at index \<open>n\<close>, if it arrives there:
  \<open>None\<close> when an earlier iteration has returned.
\<close>

fun state_at :: "env \<Rightarrow> addr \<Rightarrow> callback_pair list \<Rightarrow> loop_state \<Rightarrow> nat \<Rightarrow> loop_state option" where
  "state_at call effect cbs s0 0 = Some s0"
| "state_at call effect cbs s0 (Suc n) =
     (case state_at call effect cbs s0 n of
        None \<Rightarrow> None
      | Some s \<Rightarrow>
          (if n < length cbs
           then (case loop_body call effect n (cbs ! n) s of
                   Continue s' \<Rightarrow> Some s'
                 | Return v h \<Rightarrow> None)
           else None))"

section \<open>\<^verbatim>\<open>fail_effect\<close> and \<^verbatim>\<open>resolve_stub\<close>\<close>

text \<open>
  \<^verbatim>\<open>raise exception\<close> followed by \<^verbatim>\<open>except:\<close> captures the exception;
  \<^verbatim>\<open>sys.exc_info()\<close> is its triple.
\<close>

definition fail_effect :: "env \<Rightarrow> addr \<Rightarrow> pyexc \<Rightarrow> store \<Rightarrow> (pyexc + pyval) \<times> store" where
  "fail_effect call effect exception h = resolve_effect call effect (VExcInfo exception) True h"

definition resolve_stub :: "env \<Rightarrow> addr \<Rightarrow> store \<Rightarrow> (pyexc + pyval) \<times> store" where
  "resolve_stub call effect h =
     (case getattr (intent (h ! effect)) ''result'' of
        Inl e \<Rightarrow> (Inl e, h)
      | Inr res \<Rightarrow> resolve_effect call effect res False h)"

section \<open>\<^verbatim>\<open>sync_perform\<close>\<close>

text \<open>
  \<^verbatim>\<open>perform\<close> is outside \<^verbatim>\<open>testing.py\<close> and is a parameter. What \<^verbatim>\<open>sync_perform\<close>
  sees of it: whether it raised, the calls it made to the two closures \<^verbatim>\<open>SUCC\<close> and
  \<^verbatim>\<open>ERR\<close> in order, and the objects it built. The \<^verbatim>\<open>repr\<close> of an \<^verbatim>\<open>Effect\<close> is a parameter
  as well.
\<close>

datatype collector_call = CallSUCC pyval | CallERR pyval

record performed =
  raised :: "pyexc option"
  calls :: "collector_call list"
  allocated :: "effect list"

text \<open>The bodies of \<^verbatim>\<open>SUCC\<close> and \<^verbatim>\<open>ERR\<close>, on the two lists.\<close>

fun collect :: "collector_call \<Rightarrow> pyval list \<times> pyval list \<Rightarrow> pyval list \<times> pyval list" where
  "collect (CallSUCC x) (successes, errors) = (successes @ [x], errors)"
| "collect (CallERR x) (successes, errors) = (successes, errors @ [x])"

text \<open>The two lists after the calls, both empty at first.\<close>

definition collected :: "collector_call list \<Rightarrow> pyval list \<times> pyval list" where
  "collected cs = fold collect cs ([], [])"

definition sync_perform :: "(addr \<Rightarrow> 'd \<Rightarrow> store \<Rightarrow> performed) \<Rightarrow> (effect \<Rightarrow> string)
    \<Rightarrow> addr \<Rightarrow> 'd \<Rightarrow> store \<Rightarrow> (pyexc + pyval) \<times> store" where
  "sync_perform perform repr effect dispatcher h =
     (case on effect (Some SUCC) (Some ERR) h of (effect', h1) \<Rightarrow>
        (let p = perform effect' dispatcher h1;
             h2 = h1 @ allocated p
         in case raised p of
              Some e \<Rightarrow> (Inl e, h2)
            | None \<Rightarrow>
                (case collected (calls p) of (successes, errors) \<Rightarrow>
                   if successes \<noteq> [] then (Inr (hd successes), h2)
                   else if errors \<noteq> [] then (Inl (reraise (hd errors)), h2)
                   else (Inl \<lparr>exc_type = ''AssertionError'',
                              exc_message = ''Performing '' @ repr (h2 ! effect')
                                @ '' was not synchronous!''\<rparr>, h2))))"

section \<open>The fold of the success-continuations\<close>

text \<open>
  The specification compares \<^verbatim>\<open>resolve_effect\<close> with a left-to-right fold of the
  success-continuations over the initial result, an absent one acting as the identity.
  This is the step of that fold, written from the specification's words; the store is
  carried along, since a continuation may build objects.
\<close>

definition spec_success_step :: "env \<Rightarrow> callback_pair \<Rightarrow> pyval \<times> store \<Rightarrow> pyval \<times> store" where
  "spec_success_step call pair vh =
     (case fst pair of
        None \<Rightarrow> vh
      | Some f \<Rightarrow>
          (case call f (fst vh) (snd vh) of (r, new) \<Rightarrow>
             (case r of Inr v \<Rightarrow> v | Inl e \<Rightarrow> VExcInfo e, snd vh @ new)))"

text \<open>
  The chain as run from the result \<open>v\<close> in success mode has no error and no new
  \<^verbatim>\<open>Effect\<close>: each success-continuation that is called, on the argument it is called
  with, returns normally a value whose type is not \<^verbatim>\<open>Effect\<close>. Nothing is asked of a
  continuation on arguments it does not receive, nor of the error-continuations.
\<close>

fun clean_run :: "env \<Rightarrow> callback_pair list \<Rightarrow> pyval \<Rightarrow> store \<Rightarrow> bool" where
  "clean_run call [] v h = True"
| "clean_run call (pair # rest) v h =
     (case fst pair of
        None \<Rightarrow> clean_run call rest v h
      | Some f \<Rightarrow>
          (case call f v h of (r, new) \<Rightarrow>
             (case r of
                Inl e \<Rightarrow> False
              | Inr v' \<Rightarrow> \<not> type_is_Effect (h @ new) v' \<and> clean_run call rest v' (h @ new))))"

section \<open>Concrete callables, stores and performers\<close>

text \<open>
  \<open>Fn 0\<close> adds one to an integer and raises \<^verbatim>\<open>TypeError\<close> on anything else,
  \<open>Fn 1\<close> returns a new \<^verbatim>\<open>Effect\<close> with one callback, \<open>Fn 2\<close> returns a new
  instance of a subclass of \<^verbatim>\<open>Effect\<close>, every other callable raises
  \<^verbatim>\<open>ValueError("x")\<close>.
\<close>

definition example_call :: env where
  "example_call cb v h =
     (if cb = Fn 0 then
        (case v of VInt n \<Rightarrow> (Inr (VInt (n + 1)), [])
         | _ \<Rightarrow> (Inl \<lparr>exc_type = ''TypeError'', exc_message = []\<rparr>, []))
      else if cb = Fn 1 then
        (Inr (VRef (length h)),
         [\<lparr>cls = EffectClass, intent = StubIntent (VInt 5), callbacks = [(Some (Fn 0), None)]\<rparr>])
      else if cb = Fn 2 then
        (Inr (VRef (length h)),
         [\<lparr>cls = EffectSubclass ''TracedEffect'', intent = StubIntent (VInt 5), callbacks = []\<rparr>])
      else (Inl \<lparr>exc_type = ''ValueError'', exc_message = ''x''\<rparr>, []))"

definition example_store :: store where
  "example_store =
     [\<lparr>cls = EffectClass, intent = StubIntent (VInt 42),
       callbacks = [(Some (Fn 0), None), (Some (Fn 1), None), (Some (Fn 0), Some (Fn 3))]\<rparr>]"

text \<open>
  A \<^verbatim>\<open>repr\<close>, and five behaviours of \<^verbatim>\<open>perform\<close>: a performer that delivers nothing
  before \<^verbatim>\<open>perform\<close> returns, one that delivers the result 5, one that reports the
  failure \<^verbatim>\<open>ValueError("x")\<close>, one that reports a failure and then a result, and one
  that delivers the result 5, reports a failure and delivers the result 6.
\<close>

definition example_repr :: "effect \<Rightarrow> string" where
  "example_repr e = ''<Effect>''"

definition silent_perform :: "addr \<Rightarrow> unit \<Rightarrow> store \<Rightarrow> performed" where
  "silent_perform effect dispatcher h = \<lparr>raised = None, calls = [], allocated = []\<rparr>"

definition stub_perform :: "addr \<Rightarrow> unit \<Rightarrow> store \<Rightarrow> performed" where
  "stub_perform effect dispatcher h =
     \<lparr>raised = None, calls = [CallSUCC (VInt 5)], allocated = []\<rparr>"

definition failing_perform :: "addr \<Rightarrow> unit \<Rightarrow> store \<Rightarrow> performed" where
  "failing_perform effect dispatcher h =
     \<lparr>raised = None,
      calls = [CallERR (VExcInfo \<lparr>exc_type = ''ValueError'', exc_message = ''x''\<rparr>)],
      allocated = []\<rparr>"

definition twice_perform :: "addr \<Rightarrow> unit \<Rightarrow> store \<Rightarrow> performed" where
  "twice_perform effect dispatcher h =
     \<lparr>raised = None,
      calls = [CallERR (VExcInfo \<lparr>exc_type = ''ValueError'', exc_message = ''x''\<rparr>),
               CallSUCC (VInt 5)],
      allocated = []\<rparr>"

definition double_perform :: "addr \<Rightarrow> unit \<Rightarrow> store \<Rightarrow> performed" where
  "double_perform effect dispatcher h =
     \<lparr>raised = None,
      calls = [CallSUCC (VInt 5),
               CallERR (VExcInfo \<lparr>exc_type = ''ValueError'', exc_message = ''x''\<rparr>),
               CallSUCC (VInt 6)],
      allocated = []\<rparr>"

section \<open>The loop, iteration by iteration\<close>

lemma loop_body_absent:
  "(if is_error s then errback else callback) = None \<Longrightarrow>
     loop_body call effect i (callback, errback) s = Continue s"
  by (simp add: loop_body_def)

lemma loop_body_Effect:
  assumes "(if is_error s then errback else callback) = Some cb"
    and "call cb (result s) (store s) = (Inr v, new)"
    and "effect_of (store s @ new) v = Some obj"
    and "cls obj = EffectClass"
  shows "loop_body call effect i (callback, errback) s =
     Return (VRef (length (store s @ new)))
       ((store s @ new) @ [\<lparr>cls = EffectClass, intent = intent obj,
           callbacks = callbacks obj @ drop (i + 1) (callbacks ((store s @ new) ! effect))\<rparr>])"
  using assms by (simp add: loop_body_def type_is_Effect_def with_callbacks_def)

lemma loop_body_not_Effect:
  assumes "(if is_error s then errback else callback) = Some cb"
    and "call cb (result s) (store s) = (Inr v, new)"
    and "\<not> type_is_Effect (store s @ new) v"
  shows "loop_body call effect i (callback, errback) s =
     Continue \<lparr>result = v, is_error = False, store = store s @ new\<rparr>"
  using assms by (simp add: loop_body_def)

lemma loop_body_Continue_store:
  "loop_body call effect i pair s = Continue s' \<Longrightarrow> \<exists>ext. store s' = store s @ ext"
  by (auto simp: loop_body_def Let_def with_callbacks_def
        split: prod.splits option.splits if_splits sum.splits)

lemma loop_body_Return_store:
  "loop_body call effect i pair s = Return v h' \<Longrightarrow> \<exists>ext. h' = store s @ ext"
  by (auto simp: loop_body_def Let_def with_callbacks_def
        split: prod.splits option.splits if_splits sum.splits)

lemma loop_body_Return_new:
  assumes "loop_body call effect i pair s = Return v hr"
  shows "\<exists>new it own. v = VRef (length (store s @ new)) \<and>
           hr = (store s @ new) @ [\<lparr>cls = EffectClass, intent = it,
                  callbacks = own @ drop (i + 1) (callbacks ((store s @ new) ! effect))\<rparr>]"
proof -
  obtain callback errback where pair: "pair = (callback, errback)" by (cases pair)
  from assms pair obtain cb where "(if is_error s then errback else callback) = Some cb"
    by (auto simp: loop_body_def split: option.splits)
  moreover obtain r new where "call cb (result s) (store s) = (r, new)"
    by (cases "call cb (result s) (store s)")
  ultimately show ?thesis
    using assms pair
    by (auto simp: loop_body_def Let_def with_callbacks_def split: if_splits sum.splits)
qed

lemma state_at_Suc_SomeD:
  assumes "state_at call effect cbs s0 (Suc n) = Some s'"
  obtains s where "state_at call effect cbs s0 n = Some s" and "n < length cbs"
    and "loop_body call effect n (cbs ! n) s = Continue s'"
  using assms by (auto split: option.splits if_splits step.splits)

text \<open>Once the loop has arrived at index \<open>n\<close>, what it returns is what the rest returns.\<close>

lemma resolve_loop_state_at:
  "state_at call effect cbs s0 n = Some s \<Longrightarrow>
     resolve_loop call effect 0 cbs s0 = resolve_loop call effect n (drop n cbs) s"
proof (induction n arbitrary: s)
  case 0
  then show ?case by simp
next
  case (Suc n)
  from Suc.prems obtain t where t: "state_at call effect cbs s0 n = Some t"
    and n: "n < length cbs" and body: "loop_body call effect n (cbs ! n) t = Continue s"
    by (rule state_at_Suc_SomeD)
  have "resolve_loop call effect 0 cbs s0 = resolve_loop call effect n (drop n cbs) t"
    using Suc.IH [OF t] .
  also have "drop n cbs = cbs ! n # drop (Suc n) cbs"
    using n by (simp add: Cons_nth_drop_Suc)
  also have "resolve_loop call effect n (cbs ! n # drop (Suc n) cbs) t
      = resolve_loop call effect (Suc n) (drop (Suc n) cbs) s"
    using body by simp
  finally show ?case .
qed

lemma state_at_last:
  assumes "state_at call effect cbs s0 (length cbs) = Some s"
  shows "resolve_loop call effect 0 cbs s0 = finish s"
  using resolve_loop_state_at [OF assms] by simp

text \<open>The store only grows.\<close>

lemma state_at_store:
  "state_at call effect cbs s0 n = Some s \<Longrightarrow> \<exists>ext. store s = store s0 @ ext"
proof (induction n arbitrary: s)
  case 0
  then show ?case by simp
next
  case (Suc n)
  from Suc.prems obtain t where t: "state_at call effect cbs s0 n = Some t"
    and body: "loop_body call effect n (cbs ! n) t = Continue s"
    by (rule state_at_Suc_SomeD)
  from Suc.IH [OF t] obtain e1 where "store t = store s0 @ e1" ..
  moreover from loop_body_Continue_store [OF body] obtain e2 where "store s = store t @ e2" ..
  ultimately show ?case by simp
qed

lemma resolve_loop_store:
  "\<exists>ext. snd (resolve_loop call effect i cbs s) = store s @ ext"
proof (induction cbs arbitrary: i s)
  case Nil
  then show ?case by (simp add: finish_def)
next
  case (Cons pair rest)
  show ?case
  proof (cases "loop_body call effect i pair s")
    case (Continue s')
    from loop_body_Continue_store [OF Continue] obtain e1 where "store s' = store s @ e1" ..
    moreover from Cons.IH [of "Suc i" s'] obtain e2
      where "snd (resolve_loop call effect (Suc i) rest s') = store s' @ e2" ..
    ultimately show ?thesis using Continue by simp
  next
    case (Return v h')
    from loop_body_Return_store [OF Return] show ?thesis using Return by auto
  qed
qed

text \<open>In error mode, pairs without an error-continuation are all skipped.\<close>

lemma resolve_loop_error_passes:
  "\<forall>pair \<in> set cbs. snd pair = None \<Longrightarrow> is_error s \<Longrightarrow>
     resolve_loop call effect i cbs s = finish s"
proof (induction cbs arbitrary: i)
  case Nil
  then show ?case by simp
next
  case (Cons pair rest)
  then have "loop_body call effect i pair s = Continue s"
    by (cases pair) (simp add: loop_body_absent)
  with Cons show ?case by simp
qed

text \<open>In success mode, on a clean run, the loop is the fold.\<close>

lemma resolve_loop_fold:
  assumes "clean_run call cbs (result s) (store s)"
    and "\<not> is_error s"
  shows "resolve_loop call effect i cbs s =
     (case fold (spec_success_step call) cbs (result s, store s) of (v, h') \<Rightarrow> (Inr v, h'))"
  using assms
proof (induction cbs arbitrary: i s)
  case Nil
  then show ?case by (simp add: finish_def)
next
  case (Cons pair rest)
  obtain callback errback where pair: "pair = (callback, errback)" by (cases pair)
  show ?case
  proof (cases callback)
    case None
    with Cons.prems pair have "loop_body call effect i pair s = Continue s"
      by (simp add: loop_body_absent)
    moreover have "spec_success_step call pair (result s, store s) = (result s, store s)"
      using None pair by (simp add: spec_success_step_def)
    moreover have "clean_run call rest (result s) (store s)"
      using Cons.prems(1) None pair by simp
    ultimately show ?thesis
      using Cons.IH [of s "Suc i"] Cons.prems(2) by simp
  next
    case (Some f)
    obtain r new where call: "call f (result s) (store s) = (r, new)"
      by (cases "call f (result s) (store s)")
    with Cons.prems(1) Some pair obtain v' where r: "r = Inr v'"
      and plain: "\<not> type_is_Effect (store s @ new) v'"
      and rest: "clean_run call rest v' (store s @ new)"
      by (cases r) simp_all
    let ?s' = "\<lparr>result = v', is_error = False, store = store s @ new\<rparr>"
    have "(if is_error s then errback else callback) = Some f"
      using Some Cons.prems(2) by simp
    moreover have "call f (result s) (store s) = (Inr v', new)"
      using call r by simp
    ultimately have "loop_body call effect i (callback, errback) s = Continue ?s'"
      using plain by (rule loop_body_not_Effect)
    moreover have "spec_success_step call pair (result s, store s) = (v', store s @ new)"
      using Some pair call r by (simp add: spec_success_step_def)
    ultimately show ?thesis
      using Cons.IH [of ?s' "Suc i"] rest pair by simp
  qed
qed

text \<open>What \<^verbatim>\<open>sync_perform\<close> does once \<^verbatim>\<open>perform\<close> has returned.\<close>

lemma sync_perform_returned:
  assumes "raised (perform (length h) dispatcher (snd (on effect (Some SUCC) (Some ERR) h))) = None"
    and "collected (calls (perform (length h) dispatcher (snd (on effect (Some SUCC) (Some ERR) h))))
           = (successes, errors)"
  shows "fst (sync_perform perform repr effect dispatcher h) =
     (if successes \<noteq> [] then Inr (hd successes)
      else if errors \<noteq> [] then Inl (reraise (hd errors))
      else Inl \<lparr>exc_type = ''AssertionError'',
                exc_message = ''Performing ''
                  @ repr ((snd (on effect (Some SUCC) (Some ERR) h)
                           @ allocated (perform (length h) dispatcher
                               (snd (on effect (Some SUCC) (Some ERR) h)))) ! length h)
                  @ '' was not synchronous!''\<rparr>)"
  using assms by (simp add: sync_perform_def on_def Let_def)

section \<open>Properties of \<^verbatim>\<open>resolve_effect\<close>\<close>

text \<open>
  Claim C1 (re-entrancy rule). Let the effect at \<open>effect\<close> be resolved with any result and
  mode, and let the loop arrive at slot \<open>i\<close> with variables \<open>s\<close>. If the continuation
  selected there returns a value whose type is exactly \<^verbatim>\<open>Effect\<close>, then
  \<^verbatim>\<open>resolve_effect\<close> returns at once a new \<^verbatim>\<open>Effect\<close> whose intent is the returned value's
  intent and whose callbacks are the returned value's callbacks followed by
  \<^verbatim>\<open>effect.callbacks[i+1:]\<close>, in that order.
\<close>

theorem resolve_effect_reentrancy:
  assumes effect: "effect < length h"
    and at: "state_at call effect (callbacks (h ! effect))
               \<lparr>result = res, is_error = is_err, store = h\<rparr> i = Some s"
    and i: "i < length (callbacks (h ! effect))"
    and pair: "callbacks (h ! effect) ! i = (callback, errback)"
    and sel: "(if is_error s then errback else callback) = Some cb"
    and ret: "call cb (result s) (store s) = (Inr v, new)"
    and obj: "effect_of (store s @ new) v = Some obj"
    and exact: "cls obj = EffectClass"
  shows "resolve_effect call effect res is_err h =
     (Inr (VRef (length (store s @ new))),
      (store s @ new) @ [\<lparr>cls = EffectClass, intent = intent obj,
          callbacks = callbacks obj @ drop (i + 1) (callbacks (h ! effect))\<rparr>])"
proof -
  let ?cbs = "callbacks (h ! effect)"
  from state_at_store [OF at] obtain ext where "store s = h @ ext" by auto
  with effect have same: "(store s @ new) ! effect = h ! effect"
    by (simp add: nth_append)
  have "resolve_effect call effect res is_err h = resolve_loop call effect i (drop i ?cbs) s"
    unfolding resolve_effect_def using resolve_loop_state_at [OF at] .
  also have "drop i ?cbs = (callback, errback) # drop (Suc i) ?cbs"
    using i pair by (simp add: Cons_nth_drop_Suc [symmetric])
  finally have "resolve_effect call effect res is_err h
      = resolve_loop call effect i ((callback, errback) # drop (Suc i) ?cbs) s" .
  moreover have "loop_body call effect i (callback, errback) s =
     Return (VRef (length (store s @ new)))
       ((store s @ new) @ [\<lparr>cls = EffectClass, intent = intent obj,
           callbacks = callbacks obj @ drop (i + 1) (callbacks ((store s @ new) ! effect))\<rparr>])"
    using sel ret obj exact by (rule loop_body_Effect)
  ultimately show ?thesis
    using same by simp
qed

text \<open>
  The effect of \<open>example_store\<close> resolved with 1: slot 0 adds one, the continuation of
  slot 1 returns a new \<^verbatim>\<open>Effect\<close> with the callbacks \<open>[(Fn 0, None)]\<close>, and the pair of
  slot 2 is what remains of the original.
\<close>

theorem resolve_effect_reentrancy_witness:
  "resolve_effect example_call 0 (VInt 1) False example_store =
     (Inr (VRef 2),
      example_store @
      [\<lparr>cls = EffectClass, intent = StubIntent (VInt 5), callbacks = [(Some (Fn 0), None)]\<rparr>,
       \<lparr>cls = EffectClass, intent = StubIntent (VInt 5),
        callbacks = [(Some (Fn 0), None), (Some (Fn 0), Some (Fn 3))]\<rparr>])"
  using resolve_effect_reentrancy [of 0 example_store example_call "VInt 1" False "Suc 0"
      "\<lparr>result = VInt 2, is_error = False, store = example_store\<rparr>"
      "Some (Fn 1)" None "Fn 1" "VRef 1"
      "[\<lparr>cls = EffectClass, intent = StubIntent (VInt 5), callbacks = [(Some (Fn 0), None)]\<rparr>]"
      "\<lparr>cls = EffectClass, intent = StubIntent (VInt 5), callbacks = [(Some (Fn 0), None)]\<rparr>"]
  by (simp add: example_store_def example_call_def loop_body_def type_is_Effect_def effect_of_def)

text \<open>
  Claim C2 (fold). If the chain of the effect, as run from \<open>r\<close> in success mode, has no
  continuation that raises and none that returns a new \<^verbatim>\<open>Effect\<close>, then
  \<^verbatim>\<open>resolve_effect(effect, r, False)\<close> returns the left-to-right fold of the
  success-continuations of \<^verbatim>\<open>effect.callbacks\<close> over \<open>r\<close>, an absent one acting as the
  identity.
\<close>

theorem resolve_effect_folds_successes:
  assumes "clean_run call (callbacks (h ! effect)) r h"
  shows "resolve_effect call effect r False h =
     (case fold (spec_success_step call) (callbacks (h ! effect)) (r, h) of
        (v, h') \<Rightarrow> (Inr v, h'))"
  unfolding resolve_effect_def
  using resolve_loop_fold [where s = "\<lparr>result = r, is_error = False, store = h\<rparr>"
      and call = call and cbs = "callbacks (h ! effect)" and i = 0 and effect = effect] assms
  by simp

text \<open>
  Two continuations that add one, around a pair with no success-continuation: from 1
  the run is clean, although \<open>Fn 0\<close> raises on an argument that is no integer, and the
  fold gives 3.
\<close>

theorem resolve_effect_folds_successes_witness:
  "clean_run example_call [(Some (Fn 0), None), (None, Some (Fn 1)), (Some (Fn 0), None)]
      (VInt 1)
      [\<lparr>cls = EffectClass, intent = StubIntent (VInt 42),
        callbacks = [(Some (Fn 0), None), (None, Some (Fn 1)), (Some (Fn 0), None)]\<rparr>]
   \<and> resolve_effect example_call 0 (VInt 1) False
      [\<lparr>cls = EffectClass, intent = StubIntent (VInt 42),
        callbacks = [(Some (Fn 0), None), (None, Some (Fn 1)), (Some (Fn 0), None)]\<rparr>]
     = (Inr (VInt 3),
        [\<lparr>cls = EffectClass, intent = StubIntent (VInt 42),
          callbacks = [(Some (Fn 0), None), (None, Some (Fn 1)), (Some (Fn 0), None)]\<rparr>])"
  using resolve_effect_folds_successes [of example_call
      "[\<lparr>cls = EffectClass, intent = StubIntent (VInt 42),
         callbacks = [(Some (Fn 0), None), (None, Some (Fn 1)), (Some (Fn 0), None)]\<rparr>]"
      0 "VInt 1"]
  by (simp add: example_call_def spec_success_step_def type_is_Effect_def effect_of_def)

text \<open>
  Claim C3 (no callbacks). For an effect with an empty callback sequence,
  \<^verbatim>\<open>resolve_effect(effect, r, False)\<close> returns \<open>r\<close> unchanged, and
  \<^verbatim>\<open>resolve_effect(effect, r, True)\<close> raises instead of returning: when \<open>r\<close> is the triple
  of a captured exception \<open>e\<close>, it raises \<open>e\<close>.
\<close>

theorem resolve_effect_no_callbacks:
  assumes "callbacks (h ! effect) = []"
  shows "resolve_effect call effect r False h = (Inr r, h)
       \<and> resolve_effect call effect (VExcInfo e) True h = (Inl e, h)
       \<and> resolve_effect call effect r True h = (Inl (reraise r), h)"
  using assms by (simp add: resolve_effect_def finish_def)

theorem resolve_effect_no_callbacks_witness:
  "resolve_effect example_call 0 (VInt 7) False
      [\<lparr>cls = EffectClass, intent = StubIntent (VInt 42), callbacks = []\<rparr>]
     = (Inr (VInt 7), [\<lparr>cls = EffectClass, intent = StubIntent (VInt 42), callbacks = []\<rparr>])
   \<and> resolve_effect example_call 0
        (VExcInfo \<lparr>exc_type = ''ValueError'', exc_message = ''x''\<rparr>) True
        [\<lparr>cls = EffectClass, intent = StubIntent (VInt 42), callbacks = []\<rparr>]
     = (Inl \<lparr>exc_type = ''ValueError'', exc_message = ''x''\<rparr>,
        [\<lparr>cls = EffectClass, intent = StubIntent (VInt 42), callbacks = []\<rparr>])"
  using resolve_effect_no_callbacks [of
      "[\<lparr>cls = EffectClass, intent = StubIntent (VInt 42), callbacks = []\<rparr>]"
      0 example_call "VInt 7" "\<lparr>exc_type = ''ValueError'', exc_message = ''x''\<rparr>"]
  by simp

text \<open>
  Claim C4 (absent continuation). When the loop arrives at slot \<open>i\<close> and the side of
  pair \<open>i\<close> that the current mode selects is absent (no error-continuation in error
  mode, no success-continuation in success mode), it arrives at slot \<open>i + 1\<close> with the
  same mode and the same payload.
\<close>

theorem absent_continuation_keeps_state:
  assumes "state_at call effect cbs s0 i = Some s"
    and "i < length cbs"
    and "cbs ! i = (callback, errback)"
    and "(if is_error s then errback else callback) = None"
  shows "state_at call effect cbs s0 (Suc i) = Some s"
  using assms by (simp add: loop_body_absent)

theorem absent_continuation_keeps_state_witness:
  "state_at example_call 0 [(None, Some (Fn 3))]
       \<lparr>result = VInt 1, is_error = False, store = []\<rparr> (Suc 0)
     = Some \<lparr>result = VInt 1, is_error = False, store = []\<rparr>
   \<and> state_at example_call 0 [(Some (Fn 0), None)]
       \<lparr>result = VExcInfo \<lparr>exc_type = ''ValueError'', exc_message = ''x''\<rparr>,
        is_error = True, store = []\<rparr> (Suc 0)
     = Some \<lparr>result = VExcInfo \<lparr>exc_type = ''ValueError'', exc_message = ''x''\<rparr>,
             is_error = True, store = []\<rparr>"
  using absent_continuation_keeps_state [of example_call 0 "[(None, Some (Fn 3))]"
      "\<lparr>result = VInt 1, is_error = False, store = []\<rparr>" 0
      "\<lparr>result = VInt 1, is_error = False, store = []\<rparr>" None "Some (Fn 3)"]
    absent_continuation_keeps_state [of example_call 0 "[(Some (Fn 0), None)]"
      "\<lparr>result = VExcInfo \<lparr>exc_type = ''ValueError'', exc_message = ''x''\<rparr>,
        is_error = True, store = []\<rparr>" 0
      "\<lparr>result = VExcInfo \<lparr>exc_type = ''ValueError'', exc_message = ''x''\<rparr>,
        is_error = True, store = []\<rparr>" "Some (Fn 0)" None]
  by simp

text \<open>
  Claim C8 (no mutation). \<^verbatim>\<open>resolve_effect\<close> changes no object that exists when it is
  called: the store it leaves starts with the store it was given, so the intent and the
  callback sequence of the input effect are as before. When the loop returns at slot
  \<open>i\<close>, what it returns refers to an object that did not exist before, of class
  \<^verbatim>\<open>Effect\<close>, whose callbacks end with the slice \<^verbatim>\<open>effect.callbacks[i+1:]\<close> of the
  original sequence.
\<close>

theorem resolve_effect_does_not_mutate:
  assumes effect: "effect < length h"
  shows "take (length h) (snd (resolve_effect call effect res is_err h)) = h
       \<and> intent (snd (resolve_effect call effect res is_err h) ! effect) = intent (h ! effect)
       \<and> callbacks (snd (resolve_effect call effect res is_err h) ! effect) = callbacks (h ! effect)
       \<and> (\<forall>i s v hr.
            state_at call effect (callbacks (h ! effect))
                \<lparr>result = res, is_error = is_err, store = h\<rparr> i = Some s
            \<longrightarrow> i < length (callbacks (h ! effect))
            \<longrightarrow> loop_body call effect i (callbacks (h ! effect) ! i) s = Return v hr
            \<longrightarrow> resolve_effect call effect res is_err h = (Inr v, hr)
                \<and> (\<exists>a own. v = VRef a \<and> length h \<le> a \<and> a < length hr
                      \<and> cls (hr ! a) = EffectClass
                      \<and> callbacks (hr ! a) = own @ drop (i + 1) (callbacks (h ! effect))))"
proof -
  let ?cbs = "callbacks (h ! effect)"
  let ?s0 = "\<lparr>result = res, is_error = is_err, store = h\<rparr>"
  let ?h' = "snd (resolve_effect call effect res is_err h)"
  obtain ext where ext: "?h' = h @ ext"
    using resolve_loop_store [of call effect 0 ?cbs ?s0] by (auto simp: resolve_effect_def)
  then have frame: "take (length h) ?h' = h" by simp
  from ext effect have same: "?h' ! effect = h ! effect" by (simp add: nth_append)
  have pending: "resolve_effect call effect res is_err h = (Inr v, hr)
      \<and> (\<exists>a own. v = VRef a \<and> length h \<le> a \<and> a < length hr
            \<and> cls (hr ! a) = EffectClass
            \<and> callbacks (hr ! a) = own @ drop (i + 1) ?cbs)"
    if at: "state_at call effect ?cbs ?s0 i = Some s" and i: "i < length ?cbs"
      and body: "loop_body call effect i (?cbs ! i) s = Return v hr" for i s v hr
  proof -
    have "resolve_effect call effect res is_err h = resolve_loop call effect i (drop i ?cbs) s"
      unfolding resolve_effect_def using resolve_loop_state_at [OF at] .
    also have "drop i ?cbs = ?cbs ! i # drop (Suc i) ?cbs"
      using i by (simp add: Cons_nth_drop_Suc)
    finally have ret: "resolve_effect call effect res is_err h = (Inr v, hr)"
      using body by simp
    from state_at_store [OF at] obtain e1 where e1: "store s = h @ e1" by auto
    from loop_body_Return_new [OF body] obtain new it own
      where v: "v = VRef (length (store s @ new))"
      and hr: "hr = (store s @ new) @ [\<lparr>cls = EffectClass, intent = it,
                  callbacks = own @ drop (i + 1) (callbacks ((store s @ new) ! effect))\<rparr>]"
      by blast
    have "(store s @ new) ! effect = h ! effect"
      using e1 effect by (simp add: nth_append)
    with v hr e1 have "v = VRef (length (store s @ new)) \<and> length h \<le> length (store s @ new)
        \<and> length (store s @ new) < length hr
        \<and> cls (hr ! length (store s @ new)) = EffectClass
        \<and> callbacks (hr ! length (store s @ new)) = own @ drop (i + 1) ?cbs"
      by (simp add: nth_append)
    with ret show ?thesis by blast
  qed
  from frame same pending show ?thesis by simp
qed

text \<open>
  The effect of \<open>example_store\<close> resolved with 1 returns at slot 1: the store still
  starts with \<open>example_store\<close>, and the value returned refers to a new object.
\<close>

theorem resolve_effect_does_not_mutate_witness:
  "0 < length example_store
   \<and> take (length example_store)
        (snd (resolve_effect example_call 0 (VInt 1) False example_store)) = example_store
   \<and> callbacks (snd (resolve_effect example_call 0 (VInt 1) False example_store) ! 0)
        = [(Some (Fn 0), None), (Some (Fn 1), None), (Some (Fn 0), Some (Fn 3))]
   \<and> fst (resolve_effect example_call 0 (VInt 1) False example_store) = Inr (VRef 2)"
proof -
  have len: "0 < length example_store"
    by (simp add: example_store_def)
  note frame = resolve_effect_does_not_mutate [OF len, of example_call "VInt 1" False]
  have at: "state_at example_call 0 (callbacks (example_store ! 0))
      \<lparr>result = VInt 1, is_error = False, store = example_store\<rparr> (Suc 0)
    = Some \<lparr>result = VInt 2, is_error = False, store = example_store\<rparr>"
    by (simp add: example_store_def example_call_def loop_body_def type_is_Effect_def
          effect_of_def)
  have body: "loop_body example_call 0 (Suc 0) (callbacks (example_store ! 0) ! Suc 0)
      \<lparr>result = VInt 2, is_error = False, store = example_store\<rparr>
    = Return (VRef 2) (example_store @
      [\<lparr>cls = EffectClass, intent = StubIntent (VInt 5), callbacks = [(Some (Fn 0), None)]\<rparr>,
       \<lparr>cls = EffectClass, intent = StubIntent (VInt 5),
        callbacks = [(Some (Fn 0), None), (Some (Fn 0), Some (Fn 3))]\<rparr>])"
    by (simp add: example_store_def example_call_def loop_body_def type_is_Effect_def
          effect_of_def with_callbacks_def)
  have slot: "Suc 0 < length (callbacks (example_store ! 0))"
    by (simp add: example_store_def)
  note pending = frame [THEN conjunct2, THEN conjunct2, THEN conjunct2, rule_format,
      OF at slot body]
  then have "fst (resolve_effect example_call 0 (VInt 1) False example_store) = Inr (VRef 2)"
    by simp
  with frame len show ?thesis
    by (simp add: example_store_def)
qed

text \<open>
  Claim C10 (exact type test). When the continuation selected at slot \<open>i\<close> returns an
  instance of a proper subclass of \<^verbatim>\<open>Effect\<close>, the loop goes on to slot \<open>i + 1\<close> in
  success mode with that instance as its payload; when slot \<open>i\<close> is the last one,
  \<^verbatim>\<open>resolve_effect\<close> returns the instance itself and builds nothing.
\<close>

theorem subclass_instance_is_plain_payload:
  assumes at: "state_at call effect (callbacks (h ! effect))
               \<lparr>result = res, is_error = is_err, store = h\<rparr> i = Some s"
    and i: "i < length (callbacks (h ! effect))"
    and pair: "callbacks (h ! effect) ! i = (callback, errback)"
    and sel: "(if is_error s then errback else callback) = Some cb"
    and ret: "call cb (result s) (store s) = (Inr v, new)"
    and obj: "effect_of (store s @ new) v = Some obj"
    and sub: "cls obj = EffectSubclass name"
  shows "state_at call effect (callbacks (h ! effect))
             \<lparr>result = res, is_error = is_err, store = h\<rparr> (Suc i)
           = Some \<lparr>result = v, is_error = False, store = store s @ new\<rparr>
       \<and> (Suc i = length (callbacks (h ! effect)) \<longrightarrow>
            resolve_effect call effect res is_err h = (Inr v, store s @ new))"
proof -
  let ?cbs = "callbacks (h ! effect)"
  let ?s0 = "\<lparr>result = res, is_error = is_err, store = h\<rparr>"
  let ?s' = "\<lparr>result = v, is_error = False, store = store s @ new\<rparr>"
  have "\<not> type_is_Effect (store s @ new) v"
    using obj sub by (simp add: type_is_Effect_def)
  with sel ret have "loop_body call effect i (callback, errback) s = Continue ?s'"
    by (rule loop_body_not_Effect)
  with at i pair have next_state: "state_at call effect ?cbs ?s0 (Suc i) = Some ?s'"
    by simp
  moreover have "resolve_effect call effect res is_err h = (Inr v, store s @ new)"
    if "Suc i = length ?cbs"
    using state_at_last [of call effect ?cbs ?s0 ?s'] next_state that
    by (simp add: resolve_effect_def finish_def)
  ultimately show ?thesis by blast
qed

theorem subclass_instance_is_plain_payload_witness:
  "resolve_effect example_call 0 (VInt 1) False
      [\<lparr>cls = EffectClass, intent = StubIntent (VInt 42), callbacks = [(Some (Fn 2), None)]\<rparr>]
     = (Inr (VRef 1),
        [\<lparr>cls = EffectClass, intent = StubIntent (VInt 42), callbacks = [(Some (Fn 2), None)]\<rparr>,
         \<lparr>cls = EffectSubclass ''TracedEffect'', intent = StubIntent (VInt 5), callbacks = []\<rparr>])"
  using subclass_instance_is_plain_payload [of example_call 0
      "[\<lparr>cls = EffectClass, intent = StubIntent (VInt 42), callbacks = [(Some (Fn 2), None)]\<rparr>]"
      "VInt 1" False 0
      "\<lparr>result = VInt 1, is_error = False,
        store = [\<lparr>cls = EffectClass, intent = StubIntent (VInt 42),
                  callbacks = [(Some (Fn 2), None)]\<rparr>]\<rparr>"
      "Some (Fn 2)" None "Fn 2" "VRef 1"
      "[\<lparr>cls = EffectSubclass ''TracedEffect'', intent = StubIntent (VInt 5), callbacks = []\<rparr>]"
      "\<lparr>cls = EffectSubclass ''TracedEffect'', intent = StubIntent (VInt 5), callbacks = []\<rparr>"
      "''TracedEffect''"]
  by (simp add: example_call_def effect_of_def)

section \<open>Properties of \<^verbatim>\<open>fail_effect\<close> and \<^verbatim>\<open>resolve_stub\<close>\<close>

text \<open>
  Claim C5 (an unhandled failure comes back). If no pair of the effect has an
  error-continuation, \<^verbatim>\<open>fail_effect(effect, e)\<close> raises \<open>e\<close> itself, with its type and
  its value: \<^verbatim>\<open>fail_effect(effect, ValueError("x"))\<close> raises a \<^verbatim>\<open>ValueError\<close> with
  message \<^verbatim>\<open>x\<close>.
\<close>

theorem fail_effect_reraises:
  assumes "\<forall>pair \<in> set (callbacks (h ! effect)). snd pair = None"
  shows "fail_effect call effect e h = (Inl e, h)"
  using resolve_loop_error_passes [OF assms,
      of "\<lparr>result = VExcInfo e, is_error = True, store = h\<rparr>" call effect 0]
  by (simp add: fail_effect_def resolve_effect_def finish_def)

theorem fail_effect_reraises_witness:
  "fail_effect example_call 0 \<lparr>exc_type = ''ValueError'', exc_message = ''x''\<rparr>
      [\<lparr>cls = EffectClass, intent = StubIntent (VInt 42),
        callbacks = [(Some (Fn 0), None), (Some (Fn 1), None)]\<rparr>]
     = (Inl \<lparr>exc_type = ''ValueError'', exc_message = ''x''\<rparr>,
        [\<lparr>cls = EffectClass, intent = StubIntent (VInt 42),
          callbacks = [(Some (Fn 0), None), (Some (Fn 1), None)]\<rparr>])"
  using fail_effect_reraises [of
      "[\<lparr>cls = EffectClass, intent = StubIntent (VInt 42),
         callbacks = [(Some (Fn 0), None), (Some (Fn 1), None)]\<rparr>]"
      0 example_call "\<lparr>exc_type = ''ValueError'', exc_message = ''x''\<rparr>"]
  by simp

text \<open>
  Claim C6, as the code has it. \<^verbatim>\<open>resolve_stub\<close> reads the attribute \<^verbatim>\<open>result\<close> of the
  intent and does not look at the intent's class. For an effect whose intent is a
  \<^verbatim>\<open>StubIntent\<close>, and for any effect whose intent has an attribute \<^verbatim>\<open>result\<close>,
  \<^verbatim>\<open>resolve_stub(effect)\<close> is \<^verbatim>\<open>resolve_effect(effect, effect.intent.result, False)\<close>;
  for an effect whose intent has no such attribute it raises \<^verbatim>\<open>AttributeError\<close> and runs
  no continuation.
\<close>

theorem resolve_stub_by_attribute:
  "(intent (h ! effect) = StubIntent r \<longrightarrow>
      resolve_stub call effect h = resolve_effect call effect r False h)
   \<and> (map_of (intent_attrs (intent (h ! effect))) ''result'' = Some r \<longrightarrow>
      resolve_stub call effect h = resolve_effect call effect r False h)
   \<and> (map_of (intent_attrs (intent (h ! effect))) ''result'' = None \<longrightarrow>
      (\<exists>e. resolve_stub call effect h = (Inl e, h) \<and> exc_type e = ''AttributeError''))"
  by (simp add: resolve_stub_def getattr_def StubIntent_def)

text \<open>
  \<^verbatim>\<open>resolve_stub(Effect(StubIntent(42)))\<close> returns 42; an intent of another class
  without the attribute makes \<^verbatim>\<open>resolve_stub\<close> raise \<^verbatim>\<open>AttributeError\<close>.
\<close>

theorem resolve_stub_by_attribute_witness:
  "resolve_stub example_call 0
      [\<lparr>cls = EffectClass, intent = StubIntent (VInt 42), callbacks = []\<rparr>]
     = (Inr (VInt 42), [\<lparr>cls = EffectClass, intent = StubIntent (VInt 42), callbacks = []\<rparr>])
   \<and> (\<exists>e. fst (resolve_stub example_call 0
        [\<lparr>cls = EffectClass,
          intent = \<lparr>intent_class = ''Delay'', intent_attrs = [(''delay'', VInt 3)]\<rparr>,
          callbacks = []\<rparr>]) = Inl e \<and> exc_type e = ''AttributeError'')"
  using resolve_stub_by_attribute [of
      "[\<lparr>cls = EffectClass, intent = StubIntent (VInt 42), callbacks = []\<rparr>]"
      0 "VInt 42" example_call]
    resolve_stub_by_attribute [of "[\<lparr>cls = EffectClass,
          intent = \<lparr>intent_class = ''Delay'', intent_attrs = [(''delay'', VInt 3)]\<rparr>,
          callbacks = []\<rparr>]" 0 "VInt 42" example_call]
  by (auto simp: resolve_effect_def finish_def StubIntent_def)

text \<open>
  Claim C6 as stated fails on its second half: an intent of a class other than
  \<^verbatim>\<open>StubIntent\<close> that has an attribute \<^verbatim>\<open>result\<close> is resolved like a stub, and
  \<^verbatim>\<open>resolve_stub\<close> returns a value.
\<close>

theorem resolve_stub_non_stub_counterexample:
  "intent_class (intent ([\<lparr>cls = EffectClass,
        intent = \<lparr>intent_class = ''Constant'', intent_attrs = [(''result'', VInt 7)]\<rparr>,
        callbacks = []\<rparr>] ! 0)) \<noteq> ''StubIntent''
   \<and> resolve_stub example_call 0 [\<lparr>cls = EffectClass,
        intent = \<lparr>intent_class = ''Constant'', intent_attrs = [(''result'', VInt 7)]\<rparr>,
        callbacks = []\<rparr>]
     = (Inr (VInt 7), [\<lparr>cls = EffectClass,
        intent = \<lparr>intent_class = ''Constant'', intent_attrs = [(''result'', VInt 7)]\<rparr>,
        callbacks = []\<rparr>])"
  by (simp add: resolve_stub_def getattr_def resolve_effect_def finish_def)

section \<open>Properties of \<^verbatim>\<open>sync_perform\<close>\<close>

text \<open>
  Claim C7, as the code has it. After \<^verbatim>\<open>perform\<close> returns, \<^verbatim>\<open>sync_perform\<close> returns
  the first element of the success collection when that collection is non-empty,
  whatever the error collection holds; otherwise it raises the first captured error when
  the error collection is non-empty; otherwise, both collections being empty, it raises
  \<^verbatim>\<open>AssertionError\<close> and returns no default.
\<close>

theorem sync_perform_outcome:
  assumes "raised (perform (length h) dispatcher (snd (on effect (Some SUCC) (Some ERR) h))) = None"
    and "collected (calls (perform (length h) dispatcher (snd (on effect (Some SUCC) (Some ERR) h))))
           = (successes, errors)"
  shows "(successes \<noteq> [] \<longrightarrow>
            fst (sync_perform perform repr effect dispatcher h) = Inr (hd successes))
       \<and> (successes = [] \<and> errors \<noteq> [] \<longrightarrow>
            fst (sync_perform perform repr effect dispatcher h) = Inl (reraise (hd errors)))
       \<and> (successes = [] \<and> errors = [] \<longrightarrow>
            (\<exists>e. fst (sync_perform perform repr effect dispatcher h) = Inl e
                 \<and> exc_type e = ''AssertionError''))"
  using sync_perform_returned [where perform = perform and repr = repr, OF assms] by simp

text \<open>
  One performer for each of the three cases: a delivered result is returned, a reported
  failure is raised, and a performer that delivers nothing gives \<^verbatim>\<open>AssertionError\<close>.
\<close>

theorem sync_perform_outcome_witness:
  "fst (sync_perform stub_perform example_repr 0 () example_store) = Inr (VInt 5)
   \<and> fst (sync_perform failing_perform example_repr 0 () example_store)
       = Inl \<lparr>exc_type = ''ValueError'', exc_message = ''x''\<rparr>
   \<and> (\<exists>e. fst (sync_perform silent_perform example_repr 0 () example_store) = Inl e
         \<and> exc_type e = ''AssertionError'')"
  using sync_perform_outcome [of stub_perform example_store "()" 0 "[VInt 5]" "[]"
      example_repr]
    sync_perform_outcome [of failing_perform example_store "()" 0 "[]"
      "[VExcInfo \<lparr>exc_type = ''ValueError'', exc_message = ''x''\<rparr>]" example_repr]
    sync_perform_outcome [of silent_perform example_store "()" 0 "[]" "[]" example_repr]
  by (simp add: stub_perform_def failing_perform_def silent_perform_def collected_def)

text \<open>
  Claim C7 as stated fails where \<^verbatim>\<open>perform\<close> returns after both closures have been
  called, \<^verbatim>\<open>SUCC\<close> twice: the success collection holds two elements and the error
  collection one, so it is not the case that exactly one collection is non-empty, and
  the success collection has no single element; \<^verbatim>\<open>sync_perform\<close> detects neither and
  returns the first result.
\<close>

theorem sync_perform_exactly_one_counterexample:
  "raised (double_perform (length example_store) ()
            (snd (on 0 (Some SUCC) (Some ERR) example_store))) = None
   \<and> collected (calls (double_perform (length example_store) ()
            (snd (on 0 (Some SUCC) (Some ERR) example_store))))
       = ([VInt 5, VInt 6], [VExcInfo \<lparr>exc_type = ''ValueError'', exc_message = ''x''\<rparr>])
   \<and> fst (sync_perform double_perform example_repr 0 () example_store) = Inr (VInt 5)"
  by (simp add: double_perform_def collected_def sync_perform_def on_def)

text \<open>
  Claim C9 (success first). When \<^verbatim>\<open>perform\<close> has returned and both collections are
  non-empty, \<^verbatim>\<open>sync_perform\<close> returns the first element of the success collection; the
  collected error plays no part.
\<close>

theorem sync_perform_prefers_success:
  assumes "raised (perform (length h) dispatcher (snd (on effect (Some SUCC) (Some ERR) h))) = None"
    and "collected (calls (perform (length h) dispatcher (snd (on effect (Some SUCC) (Some ERR) h))))
           = (successes, errors)"
    and "successes \<noteq> []" and "errors \<noteq> []"
  shows "fst (sync_perform perform repr effect dispatcher h) = Inr (hd successes)"
  using sync_perform_returned [where perform = perform and repr = repr, OF assms(1,2)] assms(3)
  by simp

theorem sync_perform_prefers_success_witness:
  "fst (sync_perform twice_perform example_repr 0 () example_store) = Inr (VInt 5)"
  using sync_perform_prefers_success [of twice_perform example_store "()" 0 "[VInt 5]"
      "[VExcInfo \<lparr>exc_type = ''ValueError'', exc_message = ''x''\<rparr>]" example_repr]
  by (simp add: twice_perform_def collected_def)

end
